theory Spec2Isabelle
  imports Complex_Main
begin

section \<open>Running mean and standard error (triqs/stat/mean\_error.hpp)\<close>

text \<open>
  The header defines four function templates over a container \<open>V\<close>: \<open>mean\<close>,
  \<open>mean_mpi\<close>, \<open>mean_and_err\<close> and \<open>mean_and_err_mpi\<close>. The embedding reads a container
  as a list and its elements as scalars in exact arithmetic: any \<open>real_field\<close> for the two
  mean functions, \<open>real\<close> for the two error functions. The error functions accumulate every
  term of their loop in \<open>err_calc\<close>, whose type is that of \<open>real(mean_calc)\<close>, with no
  conversion; a complex term does not enter a real accumulator, so the samples they accept
  are real.

  A container holds fewer than \<open>2^63\<close> elements, so its size is a \<open>long\<close> as it stands. The
  product \<open>length * (length - 1)\<close> of two \<open>long\<close> values is another matter: it is computed in
  64 bits (\<open>long_mul\<close> below), and leaves the range of \<open>long\<close> from length 3037000501 on.
\<close>

subsection \<open>Outcomes of a call\<close>

text \<open>
  A call of a C++ function returns a value, fails explicitly (an exception or an abort
  with a message, which is what the \<open>ENSURE\<close> macro of the commented-out lines would do), or
  has undefined behaviour. \<open>Undefined\<close> stands for the read of \<open>data[0]\<close> on an empty
  container.
\<close>

datatype 'a outcome = Returns 'a | Fails | Undefined

text \<open>
  The value of a floating-point expression, in exact arithmetic: a number, or \<open>NonFinite\<close>
  for the infinities and NaN that a division by zero or the square root of a negative
  number produces. \<open>NonFinite\<close> absorbs addition.
\<close>

datatype 'a fp = Finite 'a | NonFinite

instantiation fp :: (comm_monoid_add) comm_monoid_add
begin

definition zero_fp :: "'a fp" where
  "zero_fp = Finite 0"

fun plus_fp :: "'a fp \<Rightarrow> 'a fp \<Rightarrow> 'a fp" where
  "plus_fp (Finite a) (Finite b) = Finite (a + b)"
| "plus_fp _ _ = NonFinite"

instance
proof
  fix a b c :: "'a fp"
  show "a + b + c = a + (b + c)"
    by (cases a; cases b; cases c) (simp_all add: add.assoc)
  show "a + b = b + a"
    by (cases a; cases b) (simp_all add: add.commute)
  show "0 + a = a"
    by (cases a) (simp_all add: zero_fp_def)
qed

end

text \<open>
  Division of a floating-point value by a \<open>long\<close>, which C++ converts to \<open>double\<close> first:
  a zero divisor gives an infinity or NaN, where HOL's own division would give zero.
\<close>

definition div_long :: "'a::real_field \<Rightarrow> int \<Rightarrow> 'a fp" where
  "div_long v d = (if d = 0 then NonFinite else Finite (v / of_int d))"

text \<open>\<open>std::sqrt\<close> on a \<open>double\<close>: NaN on a negative operand.\<close>

fun sqrt_fp :: "real fp \<Rightarrow> real fp" where
  "sqrt_fp (Finite a) = (if a < 0 then NonFinite else Finite (sqrt a))"
| "sqrt_fp NonFinite = NonFinite"

text \<open>
  The product of two \<open>long\<close> values, as the 64-bit multiplication computes it: the exact
  product reduced modulo \<open>2^64\<close> into the range of \<open>long\<close>. (The C++ standard leaves a signed
  product out of range undefined; the compiled code wraps.)
\<close>

definition long_mul :: "int \<Rightarrow> int \<Rightarrow> int" where
  "long_mul a b = (a * b + 2 ^ 63) mod 2 ^ 64 - 2 ^ 63"

subsection \<open>\<open>mean\<close>\<close>

text \<open>
  \<^verbatim>\<open>
  template <typename V> auto mean(V const &data) {
    // ENSURE(data.size() > 0);
    auto mean_calc = data[0];
    mean_calc      = 0;
    for (auto const &[n, x] : itertools::enumerate(data)) { mean_calc += (x - mean_calc) / (n + 1); }
    return mean_calc;
  }
  \<close>
\<close>

definition mean_update :: "nat \<times> 'a \<Rightarrow> 'a::real_field \<Rightarrow> 'a" where
  "mean_update = (\<lambda>(n, x) mean_calc. mean_calc + (x - mean_calc) / of_nat (n + 1))"

definition mean :: "'a::real_field list \<Rightarrow> 'a outcome" where
  "mean data =
     (if data = [] then Undefined
      else Returns (fold mean_update (enumerate 0 data) 0))"

text \<open>
  The recurrence in the words of the specification: \<open>M\<close> starts at zero, and the element
  \<open>x\<close> at zero-based position \<open>n\<close> takes \<open>M\<close> to \<open>M + (x - M) / (n + 1)\<close>; \<open>running_mean k xs\<close>
  is \<open>M\<close> after the first \<open>k\<close> elements.
\<close>

fun running_mean :: "nat \<Rightarrow> 'a::real_field list \<Rightarrow> 'a" where
  "running_mean 0 xs = 0"
| "running_mean (Suc n) xs =
     running_mean n xs + (xs ! n - running_mean n xs) / of_nat (n + 1)"

subsection \<open>\<open>mean_and_err\<close>\<close>

text \<open>
  Modelled from the spec: \<open>triqs::arrays::conj_r\<close> is declared in \<open>triqs/arrays.hpp\<close>,
  which is not among the sources. The specification (4.1) describes the product
  \<open>conj_r(v) * v\<close> as ordinary squaring \<open>v * v\<close> when \<open>v\<close> is real: on a real value, exact
  or floating-point, \<open>conj_r\<close> is the identity. It is applied to no other value here.
\<close>

definition conj_r :: "'a \<Rightarrow> 'a" where
  "conj_r v = v"

text \<open>
  \<^verbatim>\<open>
  template <typename V> auto mean_and_err(V const &data) {
    // ENSURE(data.size() > 0);
    long length    = data.size();
    auto mean_calc = mean(data);
    auto err_calc  = make_regular(real(mean_calc));
    err_calc       = 0;
    for (auto const &x : data) { err_calc += conj_r(x - mean_calc) * (x - mean_calc) / (length * (length - 1)); }
    err_calc = sqrt(err_calc);
    return std::make_pair(mean_calc, err_calc);
  }
  \<close>
  \<open>err_update mean_calc len\<close> is the body of the loop, \<open>len\<close> standing for the variable
  \<open>length\<close>. On a real, \<open>std::real\<close> and \<open>make_regular\<close> are the identity.
\<close>

definition err_update :: "real \<Rightarrow> int \<Rightarrow> real \<Rightarrow> real fp \<Rightarrow> real fp" where
  "err_update mean_calc len x err_calc =
     err_calc + div_long (conj_r (x - mean_calc) * (x - mean_calc)) (long_mul len (len - 1))"

definition mean_and_err :: "real list \<Rightarrow> (real \<times> real fp) outcome" where
  "mean_and_err data =
     (let len = int (length data) in
      case mean data of
        Returns mean_calc \<Rightarrow>
          Returns (mean_calc, sqrt_fp (fold (err_update mean_calc len) data 0))
      | Fails \<Rightarrow> Fails
      | Undefined \<Rightarrow> Undefined)"

text \<open>
  The conjugate square of the specification (4.1) on a real \<open>v\<close>: \<open>v * v\<close>.
\<close>

definition conjugate_square_real :: "real \<Rightarrow> real" where
  "conjugate_square_real v = v * v"

subsection \<open>Communicators and collective operations\<close>

text \<open>
  An \<open>mpi::communicator\<close> names a fixed group of processes. Every process of the group
  calls the same function, each with its own container. The model of the communicator a
  process holds is the rest of the group: the containers of the ranks below and of the
  ranks above the calling one. \<open>ranks c data\<close> is the family of all local sequences, in
  rank order; it has at least one member, the caller's.
\<close>

record 'a communicator =
  lower :: "'a list list"
  higher :: "'a list list"

definition ranks :: "'a communicator \<Rightarrow> 'a list \<Rightarrow> 'a list list" where
  "ranks c data = lower c @ data # higher c"

text \<open>
  Modelled from the spec: \<open>mpi::all_reduce\<close> and \<open>mpi::all_reduce_in_place\<close> are declared
  in \<open>mpi/vector.hpp\<close>, which is not among the sources. By 4.4 of the specification every
  process receives the sum of the values the processes pass, and the in-place form
  assigns that sum to the caller's variable. The argument is the list of the values
  passed, one for each rank.
\<close>

definition all_reduce :: "'v::comm_monoid_add list \<Rightarrow> 'v" where
  "all_reduce contributions = sum_list contributions"

text \<open>
  A piece of code that every rank runs on its own container before the next collective
  operation. The collective is reached only when no rank has failed or run into
  undefined behaviour.
\<close>

fun every_rank :: "('d \<Rightarrow> 'r outcome) \<Rightarrow> 'd list \<Rightarrow> 'r list outcome" where
  "every_rank f [] = Returns []"
| "every_rank f (d # ds) =
     (case f d of
        Returns r \<Rightarrow>
          (case every_rank f ds of
             Returns rs \<Rightarrow> Returns (r # rs)
           | Fails \<Rightarrow> Fails
           | Undefined \<Rightarrow> Undefined)
      | Fails \<Rightarrow> Fails
      | Undefined \<Rightarrow> Undefined)"

subsection \<open>\<open>mean_mpi\<close>\<close>

text \<open>
  \<^verbatim>\<open>
  template <typename V> auto mean_mpi(mpi::communicator c, V const &data) {
    // ENSURE(data.size() > 0);
    auto M = make_regular(mean(data));
    long N = mpi::all_reduce(data.size(), c);
    M *= double(data.size()) / N;
    mpi::all_reduce_in_place(M, c); //M = mpi::all_reduce(M, c, 0);
    return M;
  }
  \<close>
  Every rank computes its local mean; the counts are summed; every rank rescales its
  mean; the rescaled means are summed. The sum is the value of \<open>M\<close> that every rank
  returns. \<open>N\<close> is not zero where it divides: the local means exist only when no container
  is empty (\<open>mean_mpi_count_pos\<close> below).
\<close>

definition mean_mpi :: "'a::real_field communicator \<Rightarrow> 'a list \<Rightarrow> 'a outcome" where
  "mean_mpi c data =
     (case every_rank mean (ranks c data) of
        Returns Ms \<Rightarrow>
          (let N = all_reduce (map length (ranks c data));
               Ms' = map2 (\<lambda>M d. M * of_real (real (length d) / real N)) Ms (ranks c data)
           in Returns (all_reduce Ms'))
      | Fails \<Rightarrow> Fails
      | Undefined \<Rightarrow> Undefined)"

subsection \<open>\<open>mean_and_err_mpi\<close>\<close>

text \<open>
  \<^verbatim>\<open>
  template <typename V> auto mean_and_err_mpi(mpi::communicator c, V const &data) {
    // ENSURE(data.size() > 0);
    long length    = mpi::all_reduce(data.size(), c);
    auto mean_calc = mean_mpi(c, data);
    auto err_calc  = make_regular(real(mean_calc));
    err_calc       = 0;
    for (auto const &x : data) { err_calc += conj_r(x - mean_calc) * (x - mean_calc) / (length * (length - 1)); }
    mpi::all_reduce_in_place(err_calc, c);
    err_calc = sqrt(err_calc);
    return std::make_pair(mean_calc, err_calc);
  }
  \<close>
  The loop is the loop of \<open>mean_and_err\<close>, run by every rank over its own container with
  the global mean and the global count.
\<close>

definition mean_and_err_mpi ::
    "real communicator \<Rightarrow> real list \<Rightarrow> (real \<times> real fp) outcome" where
  "mean_and_err_mpi c data =
     (let len = int (all_reduce (map length (ranks c data))) in
      case mean_mpi c data of
        Returns mean_calc \<Rightarrow>
          (let errs = map (\<lambda>d. fold (err_update mean_calc len) d 0) (ranks c data)
           in Returns (mean_calc, sqrt_fp (all_reduce errs)))
      | Fails \<Rightarrow> Fails
      | Undefined \<Rightarrow> Undefined)"

subsection \<open>Explicit failure\<close>

text \<open>
  A call fails explicitly when its outcome is \<open>Fails\<close>. The functions return the plain
  value types (an element, or a pair of an element and its error), with no flag that could
  mark a returned value as invalid.
\<close>

definition reports_failure :: "'a outcome \<Rightarrow> bool" where
  "reports_failure r = (r = Fails)"

subsection \<open>The caller's objects\<close>

text \<open>
  The functions take \<open>data\<close> by reference to a constant and the communicator by value.
  To state what a call does to them, the four functions are written once more on a
  store that holds both objects of the calling rank: every statement takes the store and
  the local variables to the store and the local variables after it, the loops read
  \<open>data[n]\<close> from the store they are handed, and a call that returns hands back the store
  with its value. \<open>with_store s r\<close> is the outcome \<open>r\<close> with the store \<open>s\<close> beside a returned
  value. The values that the other ranks pass to a collective are those of their own
  calls, computed from their containers.
\<close>

record 'a store =
  container :: "'a list"
  group :: "'a communicator"

definition with_store :: "'s \<Rightarrow> 'r outcome \<Rightarrow> ('r \<times> 's) outcome" where
  "with_store s r =
     (case r of Returns v \<Rightarrow> Returns (v, s) | Fails \<Rightarrow> Fails | Undefined \<Rightarrow> Undefined)"

definition mean_st :: "'a::real_field store \<Rightarrow> ('a \<times> 'a store) outcome" where
  "mean_st s =
     (if container s = [] then Undefined
      else Returns
        (fold (\<lambda>n (mean_calc, st). (mean_update (n, container st ! n) mean_calc, st))
           [0..<length (container s)] (0, s)))"

definition mean_and_err_st ::
    "real store \<Rightarrow> ((real \<times> real fp) \<times> real store) outcome" where
  "mean_and_err_st s =
     (let len = int (length (container s)) in
      case mean_st s of
        Returns (mean_calc, s1) \<Rightarrow>
          (case fold (\<lambda>n (err_calc, st). (err_update mean_calc len (container st ! n) err_calc, st))
                  [0..<length (container s1)] (0, s1) of
             (err_calc, s2) \<Rightarrow> Returns ((mean_calc, sqrt_fp err_calc), s2))
      | Fails \<Rightarrow> Fails
      | Undefined \<Rightarrow> Undefined)"

text \<open>
  What another rank passes to the second collective of \<open>mean_mpi\<close>: its local mean,
  rescaled with the global count \<open>N\<close>.
\<close>

definition rescaled_mean :: "nat \<Rightarrow> 'a::real_field list \<Rightarrow> 'a outcome" where
  "rescaled_mean N d =
     (case mean d of
        Returns M \<Rightarrow> Returns (M * of_real (real (length d) / real N))
      | Fails \<Rightarrow> Fails
      | Undefined \<Rightarrow> Undefined)"

definition mean_mpi_st :: "'a::real_field store \<Rightarrow> ('a \<times> 'a store) outcome" where
  "mean_mpi_st s =
     (case mean_st s of
        Returns (M, s1) \<Rightarrow>
          (let c = group s1;
               N = all_reduce
                     (map length (lower c) @ length (container s1) # map length (higher c));
               M2 = M * of_real (real (length (container s1)) / real N)
           in case every_rank (rescaled_mean N) (lower c) of
                Returns Ls \<Rightarrow>
                  (case every_rank (rescaled_mean N) (higher c) of
                     Returns Hs \<Rightarrow> Returns (all_reduce (Ls @ M2 # Hs), s1)
                   | Fails \<Rightarrow> Fails
                   | Undefined \<Rightarrow> Undefined)
              | Fails \<Rightarrow> Fails
              | Undefined \<Rightarrow> Undefined)
      | Fails \<Rightarrow> Fails
      | Undefined \<Rightarrow> Undefined)"

definition mean_and_err_mpi_st ::
    "real store \<Rightarrow> ((real \<times> real fp) \<times> real store) outcome" where
  "mean_and_err_mpi_st s =
     (let len = int (all_reduce (map length (ranks (group s) (container s)))) in
      case mean_mpi_st s of
        Returns (mean_calc, s1) \<Rightarrow>
          (case fold (\<lambda>n (err_calc, st). (err_update mean_calc len (container st ! n) err_calc, st))
                  [0..<length (container s1)] (0, s1) of
             (err_calc, s2) \<Rightarrow>
               (let Ls = map (\<lambda>d. fold (err_update mean_calc len) d 0) (lower (group s2));
                    Hs = map (\<lambda>d. fold (err_update mean_calc len) d 0) (higher (group s2))
                in Returns ((mean_calc, sqrt_fp (all_reduce (Ls @ err_calc # Hs))), s2)))
      | Fails \<Rightarrow> Fails
      | Undefined \<Rightarrow> Undefined)"

subsection \<open>The functions over a floating-point arithmetic\<close>

text \<open>
  Exact arithmetic cannot tell a result that is the same \<open>double\<close> from one that is only
  close to it. For the statements that are about the very value returned, the four
  functions are written once more over an arbitrary arithmetic: a type \<open>'f\<close> of
  floating-point values and the operations that the header applies to them, of which
  nothing is assumed. \<open>of_long\<close> is the conversion of an integer counter (\<open>long\<close> or
  \<open>size_t\<close>) to a floating-point value. Dividing by zero is no failure here: the quotient is
  one of the values of \<open>'f\<close>.
\<close>

record 'f arith =
  fzero :: "'f"
  fadd :: "'f \<Rightarrow> 'f \<Rightarrow> 'f"
  fsub :: "'f \<Rightarrow> 'f \<Rightarrow> 'f"
  fmul :: "'f \<Rightarrow> 'f \<Rightarrow> 'f"
  fdiv :: "'f \<Rightarrow> 'f \<Rightarrow> 'f"
  fsqrt :: "'f \<Rightarrow> 'f"
  of_long :: "int \<Rightarrow> 'f"

definition mean_update_fl :: "'f arith \<Rightarrow> nat \<times> 'f \<Rightarrow> 'f \<Rightarrow> 'f" where
  "mean_update_fl A =
     (\<lambda>(n, x) mean_calc.
        fadd A mean_calc (fdiv A (fsub A x mean_calc) (of_long A (int n + 1))))"

definition mean_fl :: "'f arith \<Rightarrow> 'f list \<Rightarrow> 'f outcome" where
  "mean_fl A data =
     (if data = [] then Undefined
      else Returns (fold (mean_update_fl A) (enumerate 0 data) (fzero A)))"

text \<open>
  Modelled from the spec: the sum that \<open>mpi::all_reduce\<close> and \<open>mpi::all_reduce_in_place\<close>
  deliver (4.4), on floating-point values. The contributions are added in rank order; with
  one rank the value delivered is the value passed.
\<close>

definition all_reduce_fl :: "'f arith \<Rightarrow> 'f list \<Rightarrow> 'f" where
  "all_reduce_fl A contributions =
     (case contributions of
        [] \<Rightarrow> fzero A
      | v # rest \<Rightarrow> fold (\<lambda>w acc. fadd A acc w) rest v)"

definition mean_mpi_fl :: "'f arith \<Rightarrow> 'f communicator \<Rightarrow> 'f list \<Rightarrow> 'f outcome" where
  "mean_mpi_fl A c data =
     (case every_rank (mean_fl A) (ranks c data) of
        Returns Ms \<Rightarrow>
          (let N = all_reduce (map length (ranks c data));
               Ms' = map2 (\<lambda>M d. fmul A M (fdiv A (of_long A (int (length d))) (of_long A (int N))))
                       Ms (ranks c data)
           in Returns (all_reduce_fl A Ms'))
      | Fails \<Rightarrow> Fails
      | Undefined \<Rightarrow> Undefined)"

definition err_update_fl :: "'f arith \<Rightarrow> 'f \<Rightarrow> int \<Rightarrow> 'f \<Rightarrow> 'f \<Rightarrow> 'f" where
  "err_update_fl A mean_calc len x err_calc =
     fadd A err_calc
       (fdiv A (fmul A (conj_r (fsub A x mean_calc)) (fsub A x mean_calc))
          (of_long A (long_mul len (len - 1))))"

definition mean_and_err_fl :: "'f arith \<Rightarrow> 'f list \<Rightarrow> ('f \<times> 'f) outcome" where
  "mean_and_err_fl A data =
     (let len = int (length data) in
      case mean_fl A data of
        Returns mean_calc \<Rightarrow>
          Returns (mean_calc, fsqrt A (fold (err_update_fl A mean_calc len) data (fzero A)))
      | Fails \<Rightarrow> Fails
      | Undefined \<Rightarrow> Undefined)"

definition mean_and_err_mpi_fl ::
    "'f arith \<Rightarrow> 'f communicator \<Rightarrow> 'f list \<Rightarrow> ('f \<times> 'f) outcome" where
  "mean_and_err_mpi_fl A c data =
     (let len = int (all_reduce (map length (ranks c data))) in
      case mean_mpi_fl A c data of
        Returns mean_calc \<Rightarrow>
          (let errs = map (\<lambda>d. fold (err_update_fl A mean_calc len) d (fzero A)) (ranks c data)
           in Returns (mean_calc, fsqrt A (all_reduce_fl A errs)))
      | Fails \<Rightarrow> Fails
      | Undefined \<Rightarrow> Undefined)"

text \<open>The arithmetic of the real numbers is one such arithmetic.\<close>

definition exact_arith :: "real arith" where
  "exact_arith =
     \<lparr>fzero = 0, fadd = (+), fsub = (-), fmul = (*), fdiv = (/), fsqrt = sqrt,
      of_long = real_of_int\<rparr>"

subsection \<open>Signed zeros, infinities and NaN\<close>

text \<open>
  The values of a \<open>double\<close>, with the rules of IEEE 754 for the signed zeros, the
  infinities and NaN. \<open>Zero s\<close> is the zero with sign bit \<open>s\<close> (\<open>True\<close> for \<open>-0.0\<close>), \<open>Num r\<close> a
  finite number \<open>r\<close> other than zero, \<open>Inf s\<close> the infinity with sign bit \<open>s\<close>. The finite
  results are not rounded: the arithmetic is that of the real numbers wherever the result
  is a number. An exact zero that a sum of two numbers produces is \<open>+0.0\<close>, as under
  rounding to nearest.
\<close>

datatype double = Zero bool | Num real | Inf bool | NaN

definition num :: "bool \<Rightarrow> real \<Rightarrow> double" where
  "num s r = (if r = 0 then Zero s else Num r)"

fun sign_bit :: "double \<Rightarrow> bool" where
  "sign_bit (Zero s) = s"
| "sign_bit (Num r) = (r < 0)"
| "sign_bit (Inf s) = s"
| "sign_bit NaN = False"

fun dneg :: "double \<Rightarrow> double" where
  "dneg (Zero s) = Zero (\<not> s)"
| "dneg (Num r) = Num (- r)"
| "dneg (Inf s) = Inf (\<not> s)"
| "dneg NaN = NaN"

fun dadd :: "double \<Rightarrow> double \<Rightarrow> double" where
  "dadd NaN b = NaN"
| "dadd a NaN = NaN"
| "dadd (Inf s) (Inf t) = (if s = t then Inf s else NaN)"
| "dadd (Inf s) b = Inf s"
| "dadd a (Inf t) = Inf t"
| "dadd (Zero s) (Zero t) = Zero (s \<and> t)"
| "dadd (Zero s) (Num b) = Num b"
| "dadd (Num a) (Zero t) = Num a"
| "dadd (Num a) (Num b) = num False (a + b)"

definition dsub :: "double \<Rightarrow> double \<Rightarrow> double" where
  "dsub a b = dadd a (dneg b)"

fun dmul :: "double \<Rightarrow> double \<Rightarrow> double" where
  "dmul NaN b = NaN"
| "dmul a NaN = NaN"
| "dmul (Inf s) (Zero t) = NaN"
| "dmul (Zero s) (Inf t) = NaN"
| "dmul (Inf s) b = Inf (s \<noteq> sign_bit b)"
| "dmul a (Inf t) = Inf (sign_bit a \<noteq> t)"
| "dmul (Zero s) b = Zero (s \<noteq> sign_bit b)"
| "dmul a (Zero t) = Zero (sign_bit a \<noteq> t)"
| "dmul (Num a) (Num b) = Num (a * b)"

fun ddiv :: "double \<Rightarrow> double \<Rightarrow> double" where
  "ddiv NaN b = NaN"
| "ddiv a NaN = NaN"
| "ddiv (Inf s) (Inf t) = NaN"
| "ddiv (Zero s) (Zero t) = NaN"
| "ddiv (Inf s) b = Inf (s \<noteq> sign_bit b)"
| "ddiv a (Inf t) = Zero (sign_bit a \<noteq> t)"
| "ddiv (Zero s) b = Zero (s \<noteq> sign_bit b)"
| "ddiv a (Zero t) = Inf (sign_bit a \<noteq> t)"
| "ddiv (Num a) (Num b) = Num (a / b)"

fun dsqrt :: "double \<Rightarrow> double" where
  "dsqrt (Zero s) = Zero s"
| "dsqrt (Num r) = (if r < 0 then NaN else Num (sqrt r))"
| "dsqrt (Inf s) = (if s then NaN else Inf False)"
| "dsqrt NaN = NaN"

definition double_arith :: "double arith" where
  "double_arith =
     \<lparr>fzero = Zero False, fadd = dadd, fsub = dsub, fmul = dmul, fdiv = ddiv,
      fsqrt = dsqrt, of_long = (\<lambda>i. num False (real_of_int i))\<rparr>"

section \<open>Verification\<close>

subsection \<open>The local mean\<close>

lemma fold_mean_update_snoc:
  "fold mean_update (enumerate 0 (xs @ [x])) m =
   mean_update (length xs, x) (fold mean_update (enumerate 0 xs) m)"
  by (simp add: enumerate_append_eq)

lemma running_mean_append:
  "k \<le> length xs \<Longrightarrow> running_mean k (xs @ ys) = running_mean k xs"
  by (induction k) (simp_all add: nth_append)

lemma fold_mean_update_running:
  "fold mean_update (enumerate 0 xs) 0 = running_mean (length xs) xs"
proof (induction xs rule: rev_induct)
  case Nil
  show ?case by simp
next
  case (snoc x xs)
  have "running_mean (length xs) (xs @ [x]) = running_mean (length xs) xs"
    by (rule running_mean_append) simp
  with snoc have "mean_update (length xs, x) (fold mean_update (enumerate 0 xs) 0)
                  = running_mean (Suc (length xs)) (xs @ [x])"
    by (simp add: mean_update_def)
  then show ?case
    by (simp only: fold_mean_update_snoc length_append_singleton)
qed

lemma running_mean_times_length:
  "k \<le> length xs \<Longrightarrow> of_nat k * running_mean k xs = sum_list (take k xs)"
proof (induction k)
  case 0
  show ?case by simp
next
  case (Suc k)
  let ?M = "running_mean k xs"
  have nz: "(of_nat k + 1 :: 'a) \<noteq> 0"
    using of_nat_neq_0 [of k, where ?'a = 'a] by (simp add: add.commute)
  have "(of_nat k + 1) * ((xs ! k - ?M) / (of_nat k + 1)) = xs ! k - ?M"
    using nz by simp
  then have "of_nat (Suc k) * running_mean (Suc k) xs
        = (of_nat k + 1) * ?M + (xs ! k - ?M)"
    by (simp add: distrib_left add.commute)
  also have "\<dots> = of_nat k * ?M + xs ! k"
    by (simp add: algebra_simps)
  also have "\<dots> = sum_list (take k xs) + xs ! k"
    using Suc by simp
  also have "\<dots> = sum_list (take (Suc k) xs)"
    using Suc.prems by (simp add: take_Suc_conv_app_nth)
  finally show ?case .
qed

lemma running_mean_eq_average:
  assumes "xs \<noteq> []"
  shows "running_mean (length xs) xs = sum_list xs / of_nat (length xs)"
proof -
  have "of_nat (length xs) * running_mean (length xs) xs = sum_list xs"
    using running_mean_times_length [of "length xs" xs] by simp
  moreover have "(of_nat (length xs) :: 'a) \<noteq> 0"
    using assms by simp
  ultimately show ?thesis
    by (simp add: field_simps)
qed

lemma mean_eq_average:
  "data \<noteq> [] \<Longrightarrow> mean data = Returns (sum_list data / of_nat (length data))"
  by (simp add: mean_def fold_mean_update_running running_mean_eq_average)

text \<open>
  Claim C3. On every non-empty sequence \<open>mean\<close> returns the accumulator that starts at zero
  and is updated, in sequence order, by \<open>M \<leftarrow> M + (x - M) / (n + 1)\<close> at zero-based position
  \<open>n\<close>; in exact arithmetic that value is the arithmetic mean, the sum of the elements
  divided by their number.
\<close>

theorem mean_recurrence_is_average:
  fixes data :: "'a::real_field list"
  assumes "data \<noteq> []"
  shows "mean data = Returns (running_mean (length data) data)
       \<and> running_mean (length data) data = sum_list data / of_nat (length data)"
  using assms
  by (simp add: mean_def fold_mean_update_running running_mean_eq_average)

theorem mean_recurrence_is_average_witness:
  "[4, 8, 6 :: real] \<noteq> []
   \<and> mean [4, 8, 6 :: real] = Returns (running_mean 3 [4, 8, 6])
   \<and> running_mean 3 [4, 8, 6 :: real] = 6"
  using mean_recurrence_is_average [of "[4, 8, 6 :: real]"] by (simp add: numeral_3_eq_3)

subsection \<open>The local mean and error\<close>

lemma long_mul_exact:
  assumes "0 \<le> a * b" and "a * b < 2 ^ 63"
  shows "long_mul a b = a * b"
proof -
  have "0 \<le> a * b + 2 ^ 63" and "a * b + 2 ^ 63 < (2 ^ 64 :: int)"
    using assms by simp_all
  then have "(a * b + 2 ^ 63) mod 2 ^ 64 = a * b + 2 ^ 63"
    by (rule mod_pos_pos_trivial)
  then show ?thesis
    by (simp add: long_mul_def)
qed

lemma long_product_pos:
  assumes "2 \<le> length data"
  shows "0 < int (length data) * (int (length data) - 1)"
proof -
  have "0 < int (length data)" and "0 < int (length data) - 1"
    using assms by linarith+
  then show ?thesis
    by (rule mult_pos_pos)
qed

lemma long_mul_length:
  assumes "2 \<le> length data" and "int (length data) * (int (length data) - 1) < 2 ^ 63"
  shows "long_mul (int (length data)) (int (length data) - 1)
       = int (length data) * (int (length data) - 1)"
  using long_product_pos [OF assms(1)] assms(2) by (intro long_mul_exact) simp_all

lemma conjugate_square_real_nonneg: "0 \<le> conjugate_square_real v"
  by (simp add: conjugate_square_real_def)

lemma conj_r_product_nonneg: "0 \<le> conj_r d * (d :: real)"
  by (simp add: conj_r_def)

lemma err_update_eq:
  "err_update M len x e =
     e + (if long_mul len (len - 1) = 0 then NonFinite
          else Finite (conjugate_square_real (x - M) / of_int (long_mul len (len - 1))))"
  by (simp add: err_update_def div_long_def conj_r_def conjugate_square_real_def)

lemma fold_err_update:
  "fold (err_update M len) xs e =
     e + sum_list (map (\<lambda>x. err_update M len x 0) xs)"
proof (induction xs arbitrary: e)
  case Nil
  show ?case by simp
next
  case (Cons x xs)
  have "err_update M len x e = e + err_update M len x 0"
    by (simp add: err_update_def)
  with Cons show ?case
    by (simp add: add.assoc)
qed

lemma fold_err_update_sum:
  "fold (err_update M len) xs 0 = sum_list (map (\<lambda>x. err_update M len x 0) xs)"
  using fold_err_update [of M len xs 0] by simp

lemma sum_list_Finite:
  "sum_list (map (\<lambda>x. Finite (f x)) xs) = Finite (sum_list (map f xs))"
  by (induction xs) (simp_all add: zero_fp_def)

lemma fold_err_update_finite:
  assumes "long_mul len (len - 1) \<noteq> 0"
  shows "fold (err_update M len) xs 0 =
     Finite (sum_list (map (\<lambda>x. conjugate_square_real (x - M)) xs)
             / of_int (long_mul len (len - 1)))"
proof -
  have "fold (err_update M len) xs 0 =
      sum_list (map (\<lambda>x. Finite (conjugate_square_real (x - M)
                                  / of_int (long_mul len (len - 1)))) xs)"
    using assms by (simp add: fold_err_update [of M len xs 0] err_update_eq)
  then show ?thesis
    by (simp add: sum_list_Finite divide_inverse sum_list_mult_const)
qed

lemma sum_conjugate_square_nonneg:
  "0 \<le> sum_list (map (\<lambda>x. conjugate_square_real (x - M)) xs)"
  by (rule sum_list_nonneg) (auto simp: conjugate_square_real_nonneg)

lemma fold_err_update_in_range:
  assumes "2 \<le> length data"
    and "int (length data) * (int (length data) - 1) < 2 ^ 63"
  shows "fold (err_update M (int (length data))) xs 0 =
     Finite (sum_list (map (\<lambda>x. conjugate_square_real (x - M)) xs)
             / of_int (int (length data) * (int (length data) - 1)))"
proof -
  let ?d = "int (length data) * (int (length data) - 1)"
  have pos: "0 < ?d"
    using assms(1) by (rule long_product_pos)
  have d: "long_mul (int (length data)) (int (length data) - 1) = ?d"
    using assms by (rule long_mul_length)
  have "long_mul (int (length data)) (int (length data) - 1) \<noteq> 0"
    using pos d by linarith
  then have "fold (err_update M (int (length data))) xs 0 =
      Finite (sum_list (map (\<lambda>x. conjugate_square_real (x - M)) xs)
              / of_int (long_mul (int (length data)) (int (length data) - 1)))"
    by (rule fold_err_update_finite)
  then show ?thesis
    by (simp only: d)
qed

text \<open>
  Where the product \<open>length * (length - 1)\<close> is in the range of \<open>long\<close>, the error is the one
  of the specification.
\<close>

lemma mean_and_err_eq:
  assumes "2 \<le> length data"
    and "int (length data) * (int (length data) - 1) < 2 ^ 63"
  shows "mean_and_err data =
     Returns (sum_list data / of_nat (length data),
              Finite (sqrt (sum_list (map (\<lambda>x. conjugate_square_real (x - sum_list data / of_nat (length data))) data)
                            / of_int (int (length data) * (int (length data) - 1)))))"
proof -
  let ?M = "sum_list data / of_nat (length data)"
  let ?d = "int (length data) * (int (length data) - 1)"
  have ne: "data \<noteq> []" using assms by auto
  have pos: "0 < ?d" using assms(1) by (rule long_product_pos)
  have m: "mean data = Returns ?M"
    using ne by (rule mean_eq_average)
  let ?q = "sum_list (map (\<lambda>x. conjugate_square_real (x - ?M)) data) / real_of_int ?d"
  have "0 < real_of_int ?d"
    using pos by (simp only: of_int_0_less_iff)
  then have q: "0 \<le> ?q"
    using sum_conjugate_square_nonneg [of ?M data] by (rule_tac divide_nonneg_pos)
  have "fold (err_update ?M (int (length data))) data 0 = Finite ?q"
    using assms by (rule fold_err_update_in_range)
  then have "sqrt_fp (fold (err_update ?M (int (length data))) data 0) = Finite (sqrt ?q)"
    using q by (simp only: sqrt_fp.simps not_less [symmetric] if_False)
  with m show ?thesis
    by (simp add: mean_and_err_def Let_def)
qed

text \<open>
  Where the 64-bit product is negative, the accumulated operand of the square root is
  negative as soon as one sample differs from the mean, and the error is not a number.
\<close>

lemma mean_and_err_negative_divisor:
  assumes "data \<noteq> []"
    and "long_mul (int (length data)) (int (length data) - 1) < 0"
    and "0 < sum_list (map (\<lambda>x. conjugate_square_real (x - sum_list data / of_nat (length data))) data)"
  shows "mean_and_err data = Returns (sum_list data / of_nat (length data), NonFinite)"
proof -
  let ?M = "sum_list data / of_nat (length data)"
  let ?d = "long_mul (int (length data)) (int (length data) - 1)"
  let ?S = "sum_list (map (\<lambda>x. conjugate_square_real (x - ?M)) data)"
  have m: "mean data = Returns ?M"
    using assms(1) by (rule mean_eq_average)
  have "real_of_int ?d < 0"
    using assms(2) by (simp only: of_int_less_0_iff)
  then have q: "?S / real_of_int ?d < 0"
    using assms(3) by (rule_tac divide_pos_neg)
  have "?d \<noteq> 0"
    using assms(2) by linarith
  then have "fold (err_update ?M (int (length data))) data 0 = Finite (?S / real_of_int ?d)"
    by (rule fold_err_update_finite)
  then have "sqrt_fp (fold (err_update ?M (int (length data))) data 0) = NonFinite"
    using q by (simp only: sqrt_fp.simps if_True)
  with m show ?thesis
    by (simp add: mean_and_err_def Let_def)
qed

lemma sum_list_replicate_zero: "sum_list (replicate n (0 :: real)) = 0"
  by (induction n) simp_all

lemma mean_and_err_spike:
  assumes "c \<noteq> 0" and "0 < n"
    and "long_mul (int (Suc n)) (int (Suc n) - 1) < 0"
  shows "mean_and_err (c # replicate n 0) = Returns (c / real (Suc n), NonFinite)"
proof -
  let ?data = "c # replicate n 0"
  let ?m = "c / real (Suc n)"
  have M: "sum_list ?data / of_nat (length ?data) = ?m"
    by (simp add: sum_list_replicate_zero)
  have "c - ?m = c * (real n / real (Suc n))"
    by (simp add: field_simps)
  then have "c - ?m \<noteq> 0"
    using assms(1,2) by simp
  then have "0 < (c - ?m)\<^sup>2"
    by (rule_tac iffD2 [OF zero_less_power2])
  then have "0 < conjugate_square_real (c - ?m)"
    by (simp only: conjugate_square_real_def power2_eq_square)
  moreover have "0 \<le> sum_list (map (\<lambda>x. conjugate_square_real (x - ?m)) (replicate n 0))"
    by (rule sum_conjugate_square_nonneg)
  ultimately have S: "0 < sum_list (map (\<lambda>x. conjugate_square_real (x - ?m)) ?data)"
    by simp
  have "mean_and_err ?data = Returns (sum_list ?data / of_nat (length ?data), NonFinite)"
  proof (rule mean_and_err_negative_divisor)
    show "?data \<noteq> []"
      by simp
    show "long_mul (int (length ?data)) (int (length ?data) - 1) < 0"
      using assms(3) by simp
    show "0 < sum_list (map (\<lambda>x. conjugate_square_real
            (x - sum_list ?data / of_nat (length ?data))) ?data)"
      using S by (simp only: M)
  qed
  then show ?thesis
    by (simp only: M)
qed

lemma long_mul_3037000501: "long_mul 3037000501 3037000500 = - 9223372033672301116"
  by (simp add: long_mul_def)

lemma long_product_threshold:
  "(3037000500 :: int) * (3037000500 - 1) < 2 ^ 63
   \<and> 2 ^ 63 \<le> (3037000501 :: int) * (3037000501 - 1)"
  by simp

text \<open>
  Claim C4. On every sequence of length \<open>N \<ge> 2\<close> the claim has \<open>mean_and_err\<close> return the
  mean and the error \<open>sqrt (S / (N * (N - 1)))\<close>, where \<open>S\<close> is the sum of
  \<open>conjugate_square_real (x - M)\<close>. The header computes that (\<open>mean_and_err_eq\<close>, and
  \<open>[1, 2, 3]\<close> gives \<open>2\<close> and \<open>sqrt (1 / 3)\<close>) as long as \<open>N * (N - 1)\<close> is in the range of
  \<open>long\<close>. On the 3037000501 samples \<open>1, 0, 0, \<dots>\<close> the 64-bit product is negative and
  the error returned is not a number, where the formula of the claim gives a positive
  real.
\<close>

theorem mean_and_err_long_overflow:
  "length (1 # replicate 3037000500 (0 :: real)) = 3037000501
   \<and> long_mul 3037000501 (3037000501 - 1) = - 9223372033672301116
   \<and> mean_and_err (1 # replicate 3037000500 0) = Returns (1 / 3037000501, NonFinite)
   \<and> mean_and_err [1, 2, 3] = Returns (2, Finite (sqrt (1 / 3)))"
proof -
  have "mean_and_err (1 # replicate 3037000500 0) = Returns (1 / real (Suc 3037000500), NonFinite)"
    by (rule mean_and_err_spike) (simp_all add: long_mul_def)
  moreover have "mean_and_err [1, 2, 3] = Returns (2, Finite (sqrt (1 / 3)))"
    by (simp add: mean_and_err_eq conjugate_square_real_def)
  ultimately show ?thesis
    by (simp add: long_mul_def)
qed

text \<open>
  Where the product \<open>length * (length - 1)\<close> is in the range of \<open>long\<close>, the error on a real
  sequence of length at least two is a real number that is not negative: every product
  \<open>conj_r (x - M) * (x - M)\<close> is a real number that is not negative, and so is the
  accumulated operand \<open>s\<close> of the square root.
\<close>

lemma mean_and_err_error_nonnegative_in_range:
  assumes "2 \<le> length data"
    and "int (length data) * (int (length data) - 1) < 2 ^ 63"
  shows "\<exists>M s. mean data = Returns M
      \<and> fold (err_update M (int (length data))) data 0 = Finite s \<and> 0 \<le> s
      \<and> mean_and_err data = Returns (M, Finite (sqrt s)) \<and> 0 \<le> sqrt s
      \<and> (\<forall>x \<in> set data. 0 \<le> conj_r (x - M) * (x - M))"
proof -
  let ?M = "sum_list data / of_nat (length data)"
  let ?d = "int (length data) * (int (length data) - 1)"
  let ?s = "sum_list (map (\<lambda>x. conjugate_square_real (x - ?M)) data) / real_of_int ?d"
  have pos: "0 < ?d"
    using assms(1) by (rule long_product_pos)
  then have "0 < real_of_int ?d"
    by (simp only: of_int_0_less_iff)
  then have s: "0 \<le> ?s"
    using sum_conjugate_square_nonneg [of ?M data] by (rule_tac divide_nonneg_pos)
  have "data \<noteq> []"
    using assms by auto
  then have "mean data = Returns ?M"
    by (rule mean_eq_average)
  moreover have "fold (err_update ?M (int (length data))) data 0 = Finite ?s"
    using assms by (rule fold_err_update_in_range)
  moreover have "mean_and_err data = Returns (?M, Finite (sqrt ?s))"
    using assms by (rule mean_and_err_eq)
  moreover have "\<forall>x \<in> set data. 0 \<le> conj_r (x - ?M) * (x - ?M)"
    using conj_r_product_nonneg by blast
  ultimately show ?thesis
    using s by (intro exI [of _ ?M] exI [of _ ?s]) simp
qed

text \<open>
  Claim C8. The claim has the error real and not negative on every sequence of length at
  least two, complex-valued ones included. The header computes such an error on real
  samples while \<open>length * (length - 1)\<close> is in the range of \<open>long\<close>
  (\<open>mean_and_err_error_nonnegative_in_range\<close>). On the 3037000501 samples \<open>2, 0, 0, \<dots>\<close> the
  64-bit product is negative, the operand of the square root is negative and the error
  returned is not a number. (Complex samples do not reach the square root at all: the
  loop adds each term to the real \<open>err_calc\<close> without a conversion.)
\<close>

theorem mean_and_err_error_not_a_number:
  "2 \<le> length (2 # replicate 3037000500 (0 :: real))
   \<and> long_mul (int (length (2 # replicate 3037000500 (0 :: real))))
        (int (length (2 # replicate 3037000500 (0 :: real))) - 1) < 0
   \<and> mean_and_err (2 # replicate 3037000500 0) = Returns (2 / 3037000501, NonFinite)"
proof -
  have "mean_and_err (2 # replicate 3037000500 0) = Returns (2 / real (Suc 3037000500), NonFinite)"
    by (rule mean_and_err_spike) (simp_all add: long_mul_def)
  then show ?thesis
    by (simp add: long_mul_def)
qed

text \<open>
  The claim C5 as it was stated asks for an explicit failure of \<open>mean\<close> on an empty
  sequence and of \<open>mean_and_err\<close> on a sequence of at most one element. The header checks
  nothing (every \<open>ENSURE\<close> line is a comment): none of these calls reports a failure,
  and \<open>mean_and_err [7]\<close> returns the pair of \<open>7\<close> and the value of \<open>0 / 0\<close>.
\<close>

theorem unchecked_preconditions_counterexample:
  "\<not> reports_failure (mean ([] :: real list))
   \<and> \<not> reports_failure (mean_and_err [])
   \<and> \<not> reports_failure (mean_and_err [7])
   \<and> mean_and_err [7] = Returns (7, NonFinite)"
  by (simp add: reports_failure_def mean_def mean_and_err_def mean_update_def enumerate_eq_zip
      err_update_def div_long_def long_mul_def)

text \<open>
  Claim C5, amended. \<open>mean\<close> and \<open>mean_and_err\<close> check no precondition and never report a
  failure. On an empty sequence both read \<open>data[0]\<close> out of bounds, which is undefined
  behaviour. On a single-element sequence \<open>[x]\<close>, \<open>mean_and_err\<close> returns the pair of \<open>x\<close>
  and the non-finite value of the division by \<open>length * (length - 1) = 0\<close>.
\<close>

theorem unchecked_preconditions:
  "mean ([] :: 'a::real_field list) = Undefined
   \<and> mean_and_err [] = Undefined
   \<and> mean_and_err [x] = Returns (x, NonFinite)
   \<and> \<not> reports_failure (mean (xs :: 'a list))
   \<and> \<not> reports_failure (mean_and_err data)"
  by (simp add: reports_failure_def mean_def mean_and_err_def mean_update_def enumerate_eq_zip
      err_update_def div_long_def long_mul_def Let_def)

subsection \<open>The distributed mean\<close>

lemma every_rank_mean:
  "[] \<notin> set ds \<Longrightarrow>
     every_rank mean ds = Returns (map (\<lambda>d. sum_list d / of_nat (length d)) ds)"
  by (induction ds) (auto simp: mean_eq_average)

lemma every_rank_mean_Undefined:
  "[] \<in> set ds \<Longrightarrow> every_rank mean ds = Undefined"
proof (induction ds)
  case Nil
  then show ?case by simp
next
  case (Cons d ds)
  show ?case
  proof (cases "d = []")
    case True
    then show ?thesis by (simp add: mean_def)
  next
    case False
    with Cons show ?thesis by (simp add: mean_eq_average)
  qed
qed

lemma sum_list_map_concat:
  "sum_list (map f (concat xss)) = sum_list (map (\<lambda>xs. sum_list (map f xs)) xss)"
  by (induction xss) simp_all

lemma sum_list_concat_lists:
  "sum_list (concat xss) = sum_list (map sum_list xss)"
  using sum_list_map_concat [of "\<lambda>x. x" xss] by simp

lemma map2_map_left: "map2 f (map g ds) ds = map (\<lambda>d. f (g d) d) ds"
  by (induction ds) simp_all

lemma rescaled_average:
  fixes d :: "'a::real_field list"
  assumes "d \<noteq> []"
  shows "sum_list d / of_nat (length d) * of_real (real (length d) / real N) = sum_list d / of_nat N"
  using assms by (simp add: of_real_divide)

lemma sum_rescaled:
  fixes ds :: "'a::real_field list list"
  assumes "[] \<notin> set ds"
  shows "sum_list (map (\<lambda>d. sum_list d / of_nat (length d) * of_real (real (length d) / real N)) ds)
       = sum_list (concat ds) / of_nat N"
proof -
  have "map (\<lambda>d. sum_list d / of_nat (length d) * of_real (real (length d) / real N)) ds
      = map (\<lambda>d. sum_list d / (of_nat N :: 'a)) ds"
    using assms by (intro map_cong refl rescaled_average) auto
  then have "sum_list (map (\<lambda>d. sum_list d / of_nat (length d) * of_real (real (length d) / real N)) ds)
      = sum_list (map (\<lambda>d. sum_list d / (of_nat N :: 'a)) ds)"
    by (rule arg_cong)
  also have "\<dots> = sum_list (concat ds) / of_nat N"
    by (simp add: sum_list_concat_lists divide_inverse sum_list_mult_const)
  finally show ?thesis .
qed

lemma mean_mpi_unfold:
  fixes data :: "'a::real_field list"
  assumes "[] \<notin> set (ranks c data)"
  shows "mean_mpi c data =
     Returns (sum_list (map (\<lambda>d. sum_list d / of_nat (length d)
                 * of_real (real (length d) / real (sum_list (map length (ranks c data)))))
               (ranks c data)))"
proof -
  have local: "every_rank mean (ranks c data) =
      Returns (map (\<lambda>d. sum_list d / of_nat (length d)) (ranks c data))"
    using assms by (rule every_rank_mean)
  show ?thesis
    by (simp only: mean_mpi_def local all_reduce_def map2_map_left Let_def outcome.case)
qed

lemma mean_mpi_eq:
  fixes data :: "'a::real_field list"
  assumes "[] \<notin> set (ranks c data)"
  shows "mean_mpi c data =
     Returns (sum_list (concat (ranks c data)) / of_nat (length (concat (ranks c data))))"
proof -
  let ?ds = "ranks c data"
  let ?N = "sum_list (map length ?ds)"
  have local: "every_rank mean ?ds = Returns (map (\<lambda>d. sum_list d / of_nat (length d)) ?ds)"
    using assms by (rule every_rank_mean)
  have "mean_mpi c data =
      Returns (sum_list (map (\<lambda>d. sum_list d / of_nat (length d) * of_real (real (length d) / real ?N)) ?ds))"
    by (simp only: mean_mpi_def local all_reduce_def map2_map_left Let_def outcome.case)
  also have "\<dots> = Returns (sum_list (concat ?ds) / of_nat ?N)"
    using sum_rescaled [OF assms, of ?N] by simp
  finally show ?thesis
    by (simp only: length_concat)
qed

lemma mean_mpi_Undefined:
  "[] \<in> set (ranks c data) \<Longrightarrow> mean_mpi c data = Undefined"
  by (simp add: mean_mpi_def every_rank_mean_Undefined)

lemma mean_mpi_count_pos:
  assumes "every_rank mean (ranks c data) = Returns Ms"
  shows "0 < all_reduce (map length (ranks c data))"
proof -
  have "[] \<notin> set (ranks c data)"
    using assms every_rank_mean_Undefined [of "ranks c data"] by auto
  then have "0 < length data"
    by (auto simp: ranks_def)
  then show ?thesis
    by (simp add: all_reduce_def ranks_def)
qed

lemma concat_nonempty: "ds \<noteq> [] \<Longrightarrow> [] \<notin> set ds \<Longrightarrow> concat ds \<noteq> []"
  by (cases ds) auto

lemma ranks_nonempty: "ranks c data \<noteq> []"
  by (simp add: ranks_def)

lemma mean_mpi_eq_mean_concat:
  fixes data :: "'a::real_field list"
  assumes "[] \<notin> set (ranks c data)"
  shows "mean_mpi c data = mean (concat (ranks c data))"
proof -
  have "concat (ranks c data) \<noteq> []"
    using ranks_nonempty assms by (rule concat_nonempty)
  then have "mean (concat (ranks c data)) =
      Returns (sum_list (concat (ranks c data)) / of_nat (length (concat (ranks c data))))"
    by (rule mean_eq_average)
  with mean_mpi_eq [OF assms] show ?thesis
    by simp
qed

lemma weighted_sum:
  fixes ds :: "'a::real_field list list"
  assumes "[] \<notin> set ds"
  shows "sum_list (map2 (\<lambda>M d. of_nat (length d) * M) (map (\<lambda>d. sum_list d / of_nat (length d)) ds) ds)
       = sum_list (concat ds)"
proof -
  have "map (\<lambda>d. of_nat (length d) * (sum_list d / of_nat (length d))) ds = map sum_list ds"
    using assms by (intro map_cong refl) auto
  then have "sum_list (map (\<lambda>d. of_nat (length d) * (sum_list d / of_nat (length d))) ds)
      = sum_list (map sum_list ds)"
    by (rule arg_cong)
  then show ?thesis
    by (simp add: map2_map_left sum_list_concat_lists)
qed

text \<open>
  Claim C2. For every family of non-empty local sequences, every rank has a local mean
  (the list \<open>Ms\<close>), \<open>N\<close> is the sum of the local counts, and \<open>mean_mpi\<close> returns the sum over
  the ranks of the local means rescaled by \<open>N_local / N\<close>. That sum is the weighted
  combination: the sum over the ranks of \<open>N_local * M_local\<close>, divided by \<open>N\<close>. In exact
  arithmetic it is the value \<open>mean\<close> returns on the concatenation of the local sequences,
  whatever the partitioning.
\<close>

theorem mean_mpi_weighted_combination:
  fixes data :: "'a::real_field list"
  assumes "[] \<notin> set (ranks c data)"
  shows "\<exists>Ms N. every_rank mean (ranks c data) = Returns Ms
      \<and> N = all_reduce (map length (ranks c data))
      \<and> mean_mpi c data =
          Returns (all_reduce (map2 (\<lambda>M d. M * of_real (real (length d) / real N)) Ms (ranks c data)))
      \<and> mean_mpi c data =
          Returns (sum_list (map2 (\<lambda>M d. of_nat (length d) * M) Ms (ranks c data)) / of_nat N)
      \<and> mean_mpi c data = mean (concat (ranks c data))"
proof -
  let ?Ms = "map (\<lambda>d. sum_list d / of_nat (length d)) (ranks c data)"
  let ?N = "all_reduce (map length (ranks c data))"
  have local: "every_rank mean (ranks c data) = Returns ?Ms"
    using assms by (rule every_rank_mean)
  have "mean_mpi c data =
      Returns (all_reduce (map2 (\<lambda>M d. M * of_real (real (length d) / real ?N)) ?Ms (ranks c data)))"
    by (simp only: mean_mpi_def local Let_def outcome.case)
  moreover have "mean_mpi c data =
      Returns (sum_list (map2 (\<lambda>M d. of_nat (length d) * M) ?Ms (ranks c data)) / of_nat ?N)"
    using weighted_sum [OF assms] mean_mpi_eq [OF assms]
    by (simp add: all_reduce_def length_concat)
  moreover have "mean_mpi c data = mean (concat (ranks c data))"
    using assms by (rule mean_mpi_eq_mean_concat)
  ultimately show ?thesis
    using local by blast
qed

theorem mean_mpi_weighted_combination_witness:
  "[] \<notin> set (ranks \<lparr>lower = [[1, 2 :: real]], higher = []\<rparr> [3])
   \<and> mean_mpi \<lparr>lower = [[1, 2 :: real]], higher = []\<rparr> [3] = Returns 2
   \<and> mean [1, 2, 3 :: real] = Returns 2"
  using mean_mpi_weighted_combination [of "\<lparr>lower = [[1, 2 :: real]], higher = []\<rparr>" "[3]"]
  by (simp add: ranks_def mean_eq_average all_reduce_def)

subsection \<open>The distributed mean and error\<close>

lemma sum_fold_err_update:
  "sum_list (map (\<lambda>d. fold (err_update M len) d 0) ds) = fold (err_update M len) (concat ds) 0"
  by (simp only: fold_err_update_sum sum_list_map_concat)

lemma mean_and_err_mpi_eq:
  assumes "[] \<notin> set (ranks c data)"
  shows "mean_and_err_mpi c data = mean_and_err (concat (ranks c data))"
proof -
  have "mean (concat (ranks c data)) = mean_mpi c data"
    using assms by (simp add: mean_mpi_eq_mean_concat)
  moreover have "mean_mpi c data =
      Returns (sum_list (concat (ranks c data)) / of_nat (length (concat (ranks c data))))"
    using assms by (rule mean_mpi_eq)
  ultimately show ?thesis
    by (simp add: mean_and_err_mpi_def mean_and_err_def all_reduce_def Let_def
        sum_fold_err_update length_concat)
qed

lemma mean_and_err_mpi_Undefined:
  "[] \<in> set (ranks c data) \<Longrightarrow> mean_and_err_mpi c data = Undefined"
  by (simp add: mean_and_err_mpi_def mean_mpi_Undefined)

text \<open>
  The claim C1 as it was stated covers families with empty local sequences. With one
  process holding \<open>[1, 2, 3]\<close> and another holding nothing, the single-process function
  returns \<open>(2, sqrt (1 / 3))\<close> on the concatenation, while the distributed call has the
  empty rank read \<open>data[0]\<close> out of bounds.
\<close>

theorem mean_and_err_mpi_empty_partition_counterexample:
  "mean_and_err_mpi \<lparr>lower = [], higher = [[]]\<rparr> [1, 2, 3] = Undefined
   \<and> mean_and_err (concat (ranks \<lparr>lower = [], higher = [[]]\<rparr> [1, 2, 3]))
       = Returns (2, Finite (sqrt (1 / 3)))"
  by (simp add: mean_and_err_mpi_def mean_mpi_Undefined ranks_def mean_and_err_eq
      conjugate_square_real_def)

text \<open>
  Claim C1, amended. For every family of non-empty local sequences distributed across
  the group (any partitioning into non-empty parts, however uneven), \<open>mean_and_err_mpi\<close>
  returns the pair of mean and error that the single-process \<open>mean_and_err\<close> returns on
  the concatenation of the local sequences, in exact arithmetic.
\<close>

theorem mean_and_err_mpi_is_mean_and_err_of_concat:
  assumes "[] \<notin> set (ranks c data)"
  shows "mean_and_err_mpi c data = mean_and_err (concat (ranks c data))"
  using assms by (rule mean_and_err_mpi_eq)

theorem mean_and_err_mpi_is_mean_and_err_of_concat_witness:
  "[] \<notin> set (ranks \<lparr>lower = [[1, 2]], higher = []\<rparr> [3])
   \<and> mean_and_err_mpi \<lparr>lower = [[1, 2]], higher = []\<rparr> [3] = Returns (2, Finite (sqrt (1 / 3)))
   \<and> mean_and_err [1, 2, 3] = Returns (2, Finite (sqrt (1 / 3)))"
  using mean_and_err_mpi_is_mean_and_err_of_concat [of "\<lparr>lower = [[1, 2]], higher = []\<rparr>" "[3]"]
  by (simp add: ranks_def mean_and_err_eq conjugate_square_real_def)

text \<open>
  The claim C6 as it was stated has the distributed functions support a rank whose local
  sequence is empty. With the calling rank holding nothing and its one peer holding
  \<open>[1, 2, 3]\<close>, \<open>mean_mpi\<close>, and \<open>mean_and_err_mpi\<close> through it, read \<open>data[0]\<close> out of
  bounds.
\<close>

theorem empty_local_sequence_counterexample:
  "mean_and_err_mpi \<lparr>lower = [[1, 2, 3]], higher = []\<rparr> [] = Undefined
   \<and> mean_mpi \<lparr>lower = [[1, 2, 3 :: real]], higher = []\<rparr> [] = Undefined"
  by (simp add: mean_and_err_mpi_def mean_mpi_Undefined ranks_def)

text \<open>
  Claim C6, amended. \<open>mean_and_err_mpi\<close> and the \<open>mean_mpi\<close> call inside it are
  well-defined, that is they return a value, exactly when every local sequence of the
  group is non-empty. On a rank whose local sequence is empty they read \<open>data[0]\<close> out
  of bounds.
\<close>

theorem distributed_calls_defined_iff:
  "(\<exists>v. mean_and_err_mpi c data = Returns v) = ([] \<notin> set (ranks c data))
   \<and> (\<exists>v. mean_mpi c data = Returns v) = ([] \<notin> set (ranks c data))
   \<and> mean_and_err_mpi c [] = Undefined
   \<and> mean_mpi c ([] :: real list) = Undefined"
proof -
  have a: "\<exists>v. mean_mpi c data = Returns v" if "[] \<notin> set (ranks c data)"
    using mean_mpi_eq [OF that] by simp
  have b: "\<exists>v. mean_and_err_mpi c data = Returns v" if "[] \<notin> set (ranks c data)"
    using mean_mpi_eq [OF that] by (simp add: mean_and_err_mpi_def Let_def)
  have c: "mean_mpi c data = Undefined" "mean_and_err_mpi c data = Undefined"
    if "[] \<in> set (ranks c data)"
    using that by (simp_all add: mean_mpi_Undefined mean_and_err_mpi_Undefined)
  have "[] \<in> set (ranks c [])"
    by (simp add: ranks_def)
  then have d: "mean_mpi c ([] :: real list) = Undefined" "mean_and_err_mpi c [] = Undefined"
    by (simp_all add: mean_mpi_Undefined mean_and_err_mpi_Undefined)
  show ?thesis
    using a b c d by auto
qed

theorem distributed_calls_defined_iff_witness:
  "[] \<notin> set (ranks \<lparr>lower = [[1, 2]], higher = []\<rparr> [3 :: real])
   \<and> (\<exists>v. mean_and_err_mpi \<lparr>lower = [[1, 2]], higher = []\<rparr> [3] = Returns v)
   \<and> [] \<in> set (ranks \<lparr>lower = [[1, 2]], higher = [[]]\<rparr> [3 :: real])
   \<and> \<not> (\<exists>v. mean_and_err_mpi \<lparr>lower = [[1, 2]], higher = [[]]\<rparr> [3] = Returns v)"
  using distributed_calls_defined_iff [of "\<lparr>lower = [[1, 2]], higher = []\<rparr>" "[3]"]
    distributed_calls_defined_iff [of "\<lparr>lower = [[1, 2]], higher = [[]]\<rparr>" "[3]"]
  by (simp add: ranks_def)

subsection \<open>The caller's objects after a call\<close>

lemma fold_keeps_store:
  "fold (\<lambda>n (acc, st). (h n (container st ! n) acc, st)) ns (a, s)
     = (fold (\<lambda>n. h n (container s ! n)) ns a, s)"
  by (induction ns arbitrary: a) simp_all

lemma fold_nth_enumerate:
  "fold (\<lambda>n. g (n, xs ! n)) [0..<length xs] a = fold g (enumerate 0 xs) a"
proof -
  have "enumerate 0 xs = map (\<lambda>n. (n, xs ! n)) [0..<length xs]"
    by (rule nth_equalityI) (simp_all add: nth_enumerate_eq)
  then show ?thesis
    by (simp add: fold_map o_def)
qed

lemma fold_nth_list:
  "fold (\<lambda>n. f (xs ! n)) [0..<length xs] a = fold f xs a"
proof -
  have "fold f (map (nth xs) [0..<length xs]) a = fold (\<lambda>n. f (xs ! n)) [0..<length xs] a"
    by (simp add: fold_map o_def)
  then show ?thesis
    by (simp add: map_nth)
qed

lemma mean_st_eq: "mean_st s = with_store s (mean (container s))"
  by (simp add: mean_st_def mean_def with_store_def
      fold_keeps_store [of "\<lambda>n x. mean_update (n, x)"] fold_nth_enumerate)

lemma mean_and_err_st_eq: "mean_and_err_st s = with_store s (mean_and_err (container s))"
  by (simp add: mean_and_err_st_def mean_and_err_def mean_st_eq with_store_def Let_def
      fold_keeps_store [of "\<lambda>n. err_update _ _"] fold_nth_list split: outcome.splits)

lemma rescaled_mean_eq:
  "d \<noteq> [] \<Longrightarrow> rescaled_mean N d =
     Returns (sum_list d / of_nat (length d) * of_real (real (length d) / real N))"
  by (simp add: rescaled_mean_def mean_eq_average)

lemma every_rank_rescaled:
  "[] \<notin> set ds \<Longrightarrow> every_rank (rescaled_mean N) ds =
     Returns (map (\<lambda>d. sum_list d / of_nat (length d) * of_real (real (length d) / real N)) ds)"
  by (induction ds) (auto simp: rescaled_mean_eq)

lemma every_rank_rescaled_Undefined:
  "[] \<in> set ds \<Longrightarrow> every_rank (rescaled_mean N) ds = Undefined"
proof (induction ds)
  case Nil
  then show ?case by simp
next
  case (Cons d ds)
  show ?case
  proof (cases "d = []")
    case True
    then show ?thesis by (simp add: rescaled_mean_def mean_def)
  next
    case False
    with Cons show ?thesis by (simp add: rescaled_mean_eq)
  qed
qed

lemma mean_mpi_st_eq:
  fixes s :: "'a::real_field store"
  shows "mean_mpi_st s = with_store s (mean_mpi (group s) (container s))"
proof (cases "[] \<in> set (ranks (group s) (container s))")
  case True
  then have rhs: "mean_mpi (group s) (container s) = Undefined"
    by (rule mean_mpi_Undefined)
  from True consider "container s = []" | "container s \<noteq> []" "[] \<in> set (lower (group s))"
    | "container s \<noteq> []" "[] \<notin> set (lower (group s))" "[] \<in> set (higher (group s))"
    by (auto simp: ranks_def)
  then have "mean_mpi_st s = Undefined"
  proof cases
    case 1
    then show ?thesis
      by (simp add: mean_mpi_st_def mean_st_def)
  next
    case 2
    then show ?thesis
      by (simp add: mean_mpi_st_def mean_st_eq mean_eq_average with_store_def Let_def
          every_rank_rescaled_Undefined)
  next
    case 3
    then show ?thesis
      by (simp add: mean_mpi_st_def mean_st_eq mean_eq_average with_store_def Let_def
          every_rank_rescaled every_rank_rescaled_Undefined)
  qed
  with rhs show ?thesis
    by (simp add: with_store_def)
next
  case False
  then have ne: "container s \<noteq> []" "[] \<notin> set (lower (group s))" "[] \<notin> set (higher (group s))"
    by (auto simp: ranks_def)
  have "mean_mpi_st s = Returns (sum_list (map (\<lambda>d. sum_list d / of_nat (length d)
                 * of_real (real (length d) / real (sum_list (map length (ranks (group s) (container s))))))
               (ranks (group s) (container s))), s)"
    using ne
    by (simp add: mean_mpi_st_def mean_st_eq mean_eq_average with_store_def Let_def
        every_rank_rescaled all_reduce_def ranks_def)
  with mean_mpi_unfold [OF False] show ?thesis
    by (simp add: with_store_def)
qed

lemma mean_and_err_mpi_st_eq:
  "mean_and_err_mpi_st s = with_store s (mean_and_err_mpi (group s) (container s))"
  by (simp add: mean_and_err_mpi_st_def mean_and_err_mpi_def mean_mpi_st_eq with_store_def
      Let_def fold_keeps_store [of "\<lambda>n. err_update _ _"] fold_nth_list all_reduce_def ranks_def
      split: outcome.splits)

text \<open>
  Claim C9. No call changes its inputs. Run on the store of the calling rank, each of
  the four functions has the outcome of its definition above, and when it returns, the
  store it hands back is the store it was given: the sequence after the call is the
  sequence before it, and so is the communicator.
\<close>

theorem calls_leave_store_unchanged:
  fixes s :: "real store"
  shows "mean_st s = with_store s (mean (container s))
       \<and> mean_and_err_st s = with_store s (mean_and_err (container s))
       \<and> mean_mpi_st s = with_store s (mean_mpi (group s) (container s))
       \<and> mean_and_err_mpi_st s = with_store s (mean_and_err_mpi (group s) (container s))"
  by (simp only: mean_st_eq mean_and_err_st_eq mean_mpi_st_eq mean_and_err_mpi_st_eq simp_thms)

theorem calls_leave_store_unchanged_witness:
  "mean_st \<lparr>container = [2, 4 :: real], group = \<lparr>lower = [[1, 2]], higher = []\<rparr>\<rparr>
     = Returns (3, \<lparr>container = [2, 4], group = \<lparr>lower = [[1, 2]], higher = []\<rparr>\<rparr>)
   \<and> mean_and_err_st \<lparr>container = [2, 4], group = \<lparr>lower = [[1, 2]], higher = []\<rparr>\<rparr>
     = Returns ((3, Finite 1), \<lparr>container = [2, 4], group = \<lparr>lower = [[1, 2]], higher = []\<rparr>\<rparr>)
   \<and> mean_mpi_st \<lparr>container = [2, 4 :: real], group = \<lparr>lower = [[1, 2]], higher = []\<rparr>\<rparr>
     = Returns (9 / 4, \<lparr>container = [2, 4], group = \<lparr>lower = [[1, 2]], higher = []\<rparr>\<rparr>)
   \<and> mean_and_err_mpi_st \<lparr>container = [2, 4], group = \<lparr>lower = [[1, 2]], higher = []\<rparr>\<rparr>
     = Returns ((9 / 4, Finite (sqrt (19 / 48))),
                \<lparr>container = [2, 4], group = \<lparr>lower = [[1, 2]], higher = []\<rparr>\<rparr>)"
  using calls_leave_store_unchanged
      [of "\<lparr>container = [2, 4], group = \<lparr>lower = [[1, 2]], higher = []\<rparr>\<rparr>"]
  by (simp add: with_store_def mean_eq_average mean_and_err_eq mean_mpi_eq mean_and_err_mpi_eq
      ranks_def conjugate_square_real_def)

subsection \<open>The value returned, in floating-point arithmetic\<close>

lemma mean_fl_exact: "mean_fl exact_arith data = mean data"
proof -
  have "mean_update_fl exact_arith = mean_update"
    by (simp add: mean_update_fl_def mean_update_def exact_arith_def fun_eq_iff add.commute)
  then show ?thesis
    by (simp add: mean_fl_def mean_def exact_arith_def)
qed

lemma all_reduce_fl_exact: "all_reduce_fl exact_arith vs = all_reduce vs"
proof -
  have "fold (\<lambda>w acc. acc + w) rest v = v + sum_list rest" for rest and v :: real
    by (induction rest arbitrary: v) (simp_all add: add.assoc)
  then show ?thesis
    by (simp add: all_reduce_fl_def all_reduce_def exact_arith_def split: list.splits)
qed

lemma mean_mpi_fl_exact: "mean_mpi_fl exact_arith c data = mean_mpi c data"
proof -
  have "mean_fl exact_arith = mean"
    by (simp add: fun_eq_iff mean_fl_exact)
  moreover have "fmul exact_arith M (fdiv exact_arith (of_long exact_arith (int n))
                   (of_long exact_arith (int N))) = M * of_real (real n / real N)" for M n N
    by (simp add: exact_arith_def)
  ultimately show ?thesis
    by (simp add: mean_mpi_fl_def mean_mpi_def all_reduce_fl_exact Let_def
        split: outcome.splits)
qed

lemma mean_fl_singleton:
  "mean_fl A [d] = Returns (fadd A (fzero A) (fdiv A (fsub A d (fzero A)) (of_long A 1)))"
  by (simp add: mean_fl_def mean_update_fl_def enumerate_eq_zip)

lemma mean_fl_double_singleton:
  "mean_fl double_arith [y] = Returns (if y = Zero True then Zero False else y)"
  by (cases y) (auto simp: mean_fl_singleton double_arith_def dsub_def num_def)

lemma double_arith_unit_scaling:
  assumes "0 < n"
  shows "fmul double_arith M
           (fdiv double_arith (of_long double_arith (int n)) (of_long double_arith (int n))) = M"
  using assms by (cases M) (simp_all add: double_arith_def num_def)

lemma all_reduce_fl_single: "all_reduce_fl A [v] = v"
  by (simp add: all_reduce_fl_def)

lemma mean_mpi_fl_single:
  assumes "\<And>M n. 0 < n \<Longrightarrow>
      fmul A M (fdiv A (of_long A (int n)) (of_long A (int n))) = M"
  shows "mean_mpi_fl A \<lparr>lower = [], higher = []\<rparr> data = mean_fl A data"
proof (cases "data = []")
  case True
  then show ?thesis
    by (simp add: mean_mpi_fl_def ranks_def mean_fl_def)
next
  case False
  then obtain M where M: "mean_fl A data = Returns M"
    by (simp add: mean_fl_def)
  have "0 < length data"
    using False by simp
  then have "fmul A M (fdiv A (of_long A (int (length data))) (of_long A (int (length data)))) = M"
    by (rule assms)
  then show ?thesis
    by (simp add: mean_mpi_fl_def ranks_def M all_reduce_def all_reduce_fl_single)
qed

lemma mean_and_err_mpi_fl_single:
  assumes "\<And>M n. 0 < n \<Longrightarrow>
      fmul A M (fdiv A (of_long A (int n)) (of_long A (int n))) = M"
  shows "mean_and_err_mpi_fl A \<lparr>lower = [], higher = []\<rparr> data = mean_and_err_fl A data"
  by (simp add: mean_and_err_mpi_fl_def mean_and_err_fl_def mean_mpi_fl_single [OF assms]
      ranks_def all_reduce_def all_reduce_fl_single Let_def split: outcome.splits)

text \<open>
  The claim C10 as it was stated has \<open>mean\<close> return exactly \<open>x\<close> on \<open>[x]\<close> in floating-point
  arithmetic too. On \<open>[-0.0]\<close> the accumulator starts at \<open>+0.0\<close>, the update adds \<open>-0.0\<close> to it,
  and the value returned is \<open>+0.0\<close>: equal to \<open>x\<close> for the comparison of C++, and another
  value.
\<close>

theorem mean_singleton_negative_zero_counterexample:
  "mean_fl double_arith [Zero True] = Returns (Zero False) \<and> Zero False \<noteq> Zero True"
  by (simp add: mean_fl_singleton double_arith_def dsub_def num_def)

text \<open>
  Claim C10, amended. On a single-element sequence \<open>[x]\<close>, \<open>mean\<close> returns \<open>x\<close> in exact
  arithmetic: the one update of the recurrence is \<open>0 + (x - 0) / 1\<close>. In a floating-point
  arithmetic it returns the very value \<open>x\<close> whenever \<open>x - 0\<close>, \<open>x / 1\<close> and \<open>0 + x\<close> are \<open>x\<close>; with
  signed zeros, infinities and NaN that is every \<open>x\<close> but \<open>-0.0\<close>, on which it returns
  \<open>+0.0\<close>.
\<close>

theorem mean_singleton:
  "mean [x] = Returns x
   \<and> (fsub A d (fzero A) = d \<and> fdiv A d (of_long A 1) = d \<and> fadd A (fzero A) d = d
        \<longrightarrow> mean_fl A [d] = Returns d)
   \<and> mean_fl double_arith [y] = Returns (if y = Zero True then Zero False else y)"
proof -
  have "mean [x] = Returns x"
    by (simp add: mean_def mean_update_def enumerate_eq_zip)
  moreover have "mean_fl double_arith [y] = Returns (if y = Zero True then Zero False else y)"
    by (rule mean_fl_double_singleton)
  ultimately show ?thesis
    by (simp add: mean_fl_singleton)
qed

theorem mean_singleton_witness:
  "fsub double_arith (Inf True) (fzero double_arith) = Inf True
   \<and> fdiv double_arith (Inf True) (of_long double_arith 1) = Inf True
   \<and> fadd double_arith (fzero double_arith) (Inf True) = Inf True
   \<and> mean_fl double_arith [Inf True] = Returns (Inf True)
   \<and> mean [5 :: real] = Returns 5
   \<and> mean_fl double_arith [Num 5] = Returns (Num 5)"
  using mean_singleton [of "5 :: real" double_arith "Inf True" "Num 5"]
  by (simp add: double_arith_def dsub_def num_def)

text \<open>
  Claim C7. Over a group of one process, \<open>mean_mpi\<close> returns on every non-empty sequence
  the very value that \<open>mean\<close> returns, and \<open>mean_and_err_mpi\<close> the pair that \<open>mean_and_err\<close>
  returns. In any floating-point arithmetic the two calls run the same operations but
  for the rescaling of the mean by \<open>double(n) / N\<close> with \<open>N = n\<close>, and a sum over one rank is
  the value passed; all that is asked of the arithmetic is that multiplying by \<open>n / n\<close>
  changes no value (in IEEE 754 the quotient is \<open>1.0\<close> and \<open>M * 1.0\<close> is \<open>M\<close>). The same
  equations hold of \<open>mean_mpi\<close> and \<open>mean_and_err_mpi\<close> in exact arithmetic.
\<close>

theorem single_process_group:
  fixes xs :: "'a::real_field list"
  assumes "\<And>M n. 0 < n \<Longrightarrow>
      fmul A M (fdiv A (of_long A (int n)) (of_long A (int n))) = M"
    and "fl \<noteq> []" and "xs \<noteq> []" and "data \<noteq> []"
  shows "mean_mpi_fl A \<lparr>lower = [], higher = []\<rparr> fl = mean_fl A fl
       \<and> mean_and_err_mpi_fl A \<lparr>lower = [], higher = []\<rparr> fl = mean_and_err_fl A fl
       \<and> mean_mpi \<lparr>lower = [], higher = []\<rparr> xs = mean xs
       \<and> mean_and_err_mpi \<lparr>lower = [], higher = []\<rparr> data = mean_and_err data"
proof -
  have "mean_mpi \<lparr>lower = [], higher = []\<rparr> xs
        = mean (concat (ranks \<lparr>lower = [], higher = []\<rparr> xs))"
    using assms(3) by (intro mean_mpi_eq_mean_concat) (simp add: ranks_def)
  moreover have "mean_and_err_mpi \<lparr>lower = [], higher = []\<rparr> data
        = mean_and_err (concat (ranks \<lparr>lower = [], higher = []\<rparr> data))"
    using assms(4) by (intro mean_and_err_mpi_eq) (simp add: ranks_def)
  moreover have "mean_mpi_fl A \<lparr>lower = [], higher = []\<rparr> fl = mean_fl A fl"
    using assms(1) by (rule mean_mpi_fl_single)
  moreover have "mean_and_err_mpi_fl A \<lparr>lower = [], higher = []\<rparr> fl = mean_and_err_fl A fl"
    using assms(1) by (rule mean_and_err_mpi_fl_single)
  ultimately show ?thesis
    by (simp add: ranks_def)
qed

theorem single_process_group_witness:
  "[Num 4, Num 8, Num 6] \<noteq> [] \<and> [4, 8, 6 :: real] \<noteq> [] \<and> [1, 2, 3 :: real] \<noteq> []
   \<and> mean_mpi_fl double_arith \<lparr>lower = [], higher = []\<rparr> [Num 4, Num 8, Num 6]
       = Returns (Num 6)
   \<and> mean_fl double_arith [Num 4, Num 8, Num 6] = Returns (Num 6)
   \<and> mean_and_err_mpi_fl double_arith \<lparr>lower = [], higher = []\<rparr> [Num 4, Num 8, Num 6]
       = Returns (Num 6, Num (sqrt (4 / 3)))
   \<and> mean_and_err_fl double_arith [Num 4, Num 8, Num 6] = Returns (Num 6, Num (sqrt (4 / 3)))
   \<and> mean_mpi \<lparr>lower = [], higher = []\<rparr> [4, 8, 6 :: real] = Returns 6
   \<and> mean [4, 8, 6 :: real] = Returns 6
   \<and> mean_and_err_mpi \<lparr>lower = [], higher = []\<rparr> [1, 2, 3] = Returns (2, Finite (sqrt (1 / 3)))
   \<and> mean_and_err [1, 2, 3] = Returns (2, Finite (sqrt (1 / 3)))"
proof -
  have fl: "mean_fl double_arith [Num 4, Num 8, Num 6] = Returns (Num 6)"
    by (simp add: mean_fl_def mean_update_fl_def enumerate_eq_zip double_arith_def dsub_def
        num_def)
  have "long_mul 3 2 = 6"
    by (simp add: long_mul_def)
  then have "mean_and_err_fl double_arith [Num 4, Num 8, Num 6]
      = Returns (Num 6, Num (sqrt (4 / 3)))"
    by (simp add: mean_and_err_fl_def fl err_update_fl_def conj_r_def)
      (simp add: double_arith_def dsub_def num_def)
  with fl show ?thesis
    using single_process_group [of double_arith "[Num 4, Num 8, Num 6]" "[4, 8, 6 :: real]"
        "[1, 2, 3]", OF double_arith_unit_scaling]
    by (simp add: mean_eq_average mean_and_err_eq conjugate_square_real_def)
qed

end
